theory Spec2Isabelle
  imports Main
begin

section \<open>Sprint Planner: the schedule builder and the taper advisor\<close>

text \<open>
  A shallow embedding of \<^verbatim>\<open>build_schedule\<close> and \<^verbatim>\<open>taper_protocol\<close> of
  \<^verbatim>\<open>app_streamlit_all_in_one.py\<close>.

  Conventions of the embedding.
  \<^item> A Python \<^verbatim>\<open>str\<close> is a \<open>string\<close> holding its UTF-8 bytes. The program only
    concatenates strings, compares them for equality and searches them for ASCII
    substrings; UTF-8 preserves all three.
  \<^item> A \<^verbatim>\<open>datetime\<close> at midnight is its proleptic Gregorian ordinal
    (\<^verbatim>\<open>toordinal()\<close>: 0001-01-01 is day 1, 9999-12-31 is day 3652059). The
    configuration record holds the values that the calls of \<^verbatim>\<open>strptime\<close> return.
  \<^item> A raised exception is a value \<open>Inl e\<close> of the result type \<open>error + 'a\<close>.
\<close>

subsection \<open>Errors and dates\<close>

datatype error = IndexError | KeyError | OverflowError

type_synonym date = int

definition MINORD :: date where
  "MINORD = 1"

definition MAXORD :: date where
  "MAXORD = 3652059"

text \<open>\<^verbatim>\<open>datetime + timedelta(days=k)\<close>: OverflowError outside year 1..9999.\<close>

definition plus_days :: "date \<Rightarrow> int \<Rightarrow> error + date" where
  "plus_days d k = (if MINORD \<le> d + k \<and> d + k \<le> MAXORD then Inr (d + k) else Inl OverflowError)"

text \<open>Sequencing of a computation that may raise.\<close>

definition bind :: "error + 'a \<Rightarrow> ('a \<Rightarrow> error + 'b) \<Rightarrow> error + 'b" where
  "bind x f = (case x of Inl e \<Rightarrow> Inl e | Inr v \<Rightarrow> f v)"

text \<open>The calendar arithmetic of CPython's \<^verbatim>\<open>datetime\<close> module (\<^verbatim>\<open>_ymd2ord\<close>).\<close>

definition is_leap :: "int \<Rightarrow> bool" where
  "is_leap y = (y mod 4 = 0 \<and> (y mod 100 \<noteq> 0 \<or> y mod 400 = 0))"

definition days_before_year :: "int \<Rightarrow> int" where
  "days_before_year year = (let y = year - 1 in y * 365 + y div 4 - y div 100 + y div 400)"

definition DAYS_BEFORE_MONTH :: "int list" where
  "DAYS_BEFORE_MONTH = [0, 31, 59, 90, 120, 151, 181, 212, 243, 273, 304, 334]"

definition days_before_month :: "int \<Rightarrow> nat \<Rightarrow> int" where
  "days_before_month year month =
     DAYS_BEFORE_MONTH ! (month - 1) + (if 2 < month \<and> is_leap year then 1 else 0)"

definition ymd2ord :: "int \<Rightarrow> nat \<Rightarrow> int \<Rightarrow> date" where
  "ymd2ord year month day = days_before_year year + days_before_month year month + day"

text \<open>\<^verbatim>\<open>datetime.weekday()\<close>: Monday is 0.\<close>

definition weekday :: "date \<Rightarrow> int" where
  "weekday d = (d + 6) mod 7"

subsection \<open>Phase segmentation\<close>

type_synonym phase_range = "string \<times> date \<times> date"

text \<open>
  The list \<^verbatim>\<open>phases_cfg\<close>. Python evaluates the list display left to right, so the
  first date difference that leaves the datetime range raises.
\<close>

definition phases_cfg :: "date \<Rightarrow> date \<Rightarrow> date \<Rightarrow> date \<Rightarrow> error + phase_range list" where
  "phases_cfg start end' peak1 peak2 =
     bind (plus_days peak1 (- 84)) (\<lambda>e1.
     bind (plus_days peak1 (- 83)) (\<lambda>s2.
     bind (plus_days peak1 (- 35)) (\<lambda>e2.
     bind (plus_days peak1 (- 34)) (\<lambda>s3.
     bind (plus_days peak1 (- 7)) (\<lambda>e3.
     bind (plus_days peak1 (- 6)) (\<lambda>s4.
     bind (plus_days peak1 1) (\<lambda>s5.
     bind (plus_days peak1 14) (\<lambda>e5.
     bind (plus_days peak1 15) (\<lambda>s6.
     bind (plus_days peak2 (- 49)) (\<lambda>e6.
     bind (plus_days peak2 (- 48)) (\<lambda>s7.
     bind (plus_days peak2 (- 14)) (\<lambda>e7.
     bind (plus_days peak2 (- 13)) (\<lambda>s8.
     bind (plus_days peak2 1) (\<lambda>s9.
     Inr [(''Phase 1 - General Prep'', start, e1),
          (''Phase 2 - Specific Prep'', s2, e2),
          (''Phase 3 - Pre-Competition (Indoor)'', s3, e3),
          (''Phase 4 - Taper & Peak 1'', s4, peak1),
          (''Phase 5 - Transition/Recovery'', s5, e5),
          (''Phase 6 - Outdoor Build'', s6, e6),
          (''Phase 7 - Pre-Competition Outdoor'', s7, e7),
          (''Phase 8 - Taper & Peak 2'', s8, peak2),
          (''Phase 9 - Post-season Reset'', s9, end')]))))))))))))))"

text \<open>\<^verbatim>\<open>phase_for\<close>: the first range that holds the date, or the empty string.\<close>

fun phase_for :: "phase_range list \<Rightarrow> date \<Rightarrow> string" where
  "phase_for [] date = ''''"
| "phase_for ((name, s, e) # rest) date =
     (if s \<le> date \<and> date \<le> e then name else phase_for rest date)"

text \<open>The peak dates for which none of the fourteen date differences overflows.\<close>

definition peaks_in_range :: "date \<Rightarrow> date \<Rightarrow> bool" where
  "peaks_in_range peak1 peak2 =
     (MINORD + 84 \<le> peak1 \<and> peak1 + 15 \<le> MAXORD \<and> MINORD + 49 \<le> peak2 \<and> peak2 + 1 \<le> MAXORD)"

text \<open>The phase table of the specification, as a list of ranges.\<close>

definition phase_table :: "date \<Rightarrow> date \<Rightarrow> date \<Rightarrow> date \<Rightarrow> phase_range list" where
  "phase_table start end' peak1 peak2 =
     [(''Phase 1 - General Prep'', start, peak1 - 84),
      (''Phase 2 - Specific Prep'', peak1 - 83, peak1 - 35),
      (''Phase 3 - Pre-Competition (Indoor)'', peak1 - 34, peak1 - 7),
      (''Phase 4 - Taper & Peak 1'', peak1 - 6, peak1),
      (''Phase 5 - Transition/Recovery'', peak1 + 1, peak1 + 14),
      (''Phase 6 - Outdoor Build'', peak1 + 15, peak2 - 49),
      (''Phase 7 - Pre-Competition Outdoor'', peak2 - 48, peak2 - 14),
      (''Phase 8 - Taper & Peak 2'', peak2 - 13, peak2),
      (''Phase 9 - Post-season Reset'', peak2 + 1, end')]"

definition contiguous :: "phase_range list \<Rightarrow> bool" where
  "contiguous ps = (\<forall>i. Suc i < length ps \<longrightarrow> snd (snd (ps ! i)) + 1 = fst (snd (ps ! Suc i)))"

subsection \<open>The weekly anchors\<close>

text \<open>
  \<^verbatim>\<open>pd.date_range(start=start, end=end, freq="W-MON")\<close> is library code. Its
  documented result is modelled here: the first Monday on or after \<open>start\<close>, then every
  seventh day as long as the day is not after \<open>end\<close>.
\<close>

definition rollforward_monday :: "date \<Rightarrow> date" where
  "rollforward_monday d = d + (7 - weekday d) mod 7"

function weekly :: "date \<Rightarrow> date \<Rightarrow> date list" where
  "weekly d end' = (if d \<le> end' then d # weekly (d + 7) end' else [])"
  by pat_completeness auto
termination
  by (relation "measure (\<lambda>(d, end'). nat (end' + 1 - d))") auto

declare weekly.simps [simp del]

definition date_range_W_MON :: "date \<Rightarrow> date \<Rightarrow> date list" where
  "date_range_W_MON start end' = weekly (rollforward_monday start) end'"

subsection \<open>Strings\<close>

text \<open>The UTF-8 bytes of the en dash, the em dash and the sign \<open>\<ge>\<close>.\<close>

definition ndash :: string where
  "ndash = [CHR 0xE2, CHR 0x80, CHR 0x93]"

definition mdash :: string where
  "mdash = [CHR 0xE2, CHR 0x80, CHR 0x94]"

definition ge_sign :: string where
  "ge_sign = [CHR 0xE2, CHR 0x89, CHR 0xA5]"

text \<open>\<^verbatim>\<open>sub in s\<close>.\<close>

definition starts_with :: "string \<Rightarrow> string \<Rightarrow> bool" where
  "starts_with sub s = (take (length sub) s = sub)"

fun contains :: "string \<Rightarrow> string \<Rightarrow> bool" where
  "contains sub [] = (sub = [])"
| "contains sub (c # cs) = (starts_with sub (c # cs) \<or> contains sub cs)"

text \<open>\<^verbatim>\<open>sep.join(parts)\<close>.\<close>

fun join :: "string \<Rightarrow> string list \<Rightarrow> string" where
  "join sep [] = []"
| "join sep [p] = p"
| "join sep (p # q # ps) = p @ sep @ join sep (q # ps)"

text \<open>\<^verbatim>\<open>str(n)\<close> of an integer.\<close>

fun str_nat :: "nat \<Rightarrow> string" where
  "str_nat n = (if n < 10 then [''0123456789'' ! n]
                else str_nat (n div 10) @ [''0123456789'' ! (n mod 10)])"

declare str_nat.simps [simp del]

definition str_int :: "int \<Rightarrow> string" where
  "str_int i = (if i < 0 then ''-'' @ str_nat (nat (- i)) else str_nat (nat i))"

subsection \<open>Binary floating point\<close>

text \<open>
  A Python \<^verbatim>\<open>float\<close> is an IEEE 754 binary64 number. A positive normal one is
  modelled by its mantissa and exponent \<open>(m, e)\<close> with \<open>2 ^ 52 \<le> m < 2 ^ 53\<close> and value
  \<open>m * 2 ^ e\<close>; zero is \<open>(0, 0)\<close>. The program only handles values between 0.4 and 1,
  so negative numbers, subnormal numbers and overflow are left out.
\<close>

type_synonym float = "int \<times> int"

text \<open>The integer nearest to \<open>p / q\<close>, ties to the even one (\<open>0 < q\<close>).\<close>

definition round_half_even :: "int \<Rightarrow> int \<Rightarrow> int" where
  "round_half_even p q =
     (let f = p div q; r = p mod q
      in if 2 * r < q then f else if q < 2 * r then f + 1 else if even f then f else f + 1)"

fun bit_length :: "nat \<Rightarrow> nat" where
  "bit_length n = (if n = 0 then 0 else Suc (bit_length (n div 2)))"

declare bit_length.simps [simp del]

text \<open>The fraction \<open>(p / q) / 2 ^ e\<close>, with integer numerator and denominator.\<close>

definition scale :: "int \<Rightarrow> int \<Rightarrow> int \<Rightarrow> int \<times> int" where
  "scale p q e = (if 0 \<le> e then (p, q * 2 ^ nat e) else (p * 2 ^ nat (- e), q))"

text \<open>
  The binary64 number nearest to \<open>p / q\<close> (\<open>0 \<le> p\<close>, \<open>0 < q\<close>), ties to even: what
  a decimal literal denotes and what an arithmetic operation returns for its exact result.
  The exponent \<open>e\<close> is chosen with \<open>2 ^ 52 \<le> (p / q) / 2 ^ e < 2 ^ 53\<close>.
\<close>

definition nearest_float :: "int \<Rightarrow> int \<Rightarrow> float" where
  "nearest_float p q =
     (if p = 0 then (0, 0)
      else let e0 = int (bit_length (nat p)) - int (bit_length (nat q)) - 53;
               (p0, q0) = scale p q e0;
               e = (if 2 ^ 53 * q0 \<le> p0 then e0 + 1 else e0);
               (p1, q1) = scale p q e;
               m = round_half_even p1 q1
           in if m = 2 ^ 53 then (2 ^ 52, e + 1) else (m, e))"

text \<open>The exact value of a float as a fraction.\<close>

definition fraction :: "float \<Rightarrow> int \<times> int" where
  "fraction x = (case x of (m, e) \<Rightarrow> scale m 1 (- e))"

text \<open>\<^verbatim>\<open>x * y\<close>: the exact product, rounded.\<close>

definition float_mul :: "float \<Rightarrow> float \<Rightarrow> float" where
  "float_mul x y =
     (case (x, y) of ((m1, e1), (m2, e2)) \<Rightarrow>
        (case scale (m1 * m2) 1 (- (e1 + e2)) of (p, q) \<Rightarrow> nearest_float p q))"

text \<open>
  \<^verbatim>\<open>round(x, 2)\<close>: CPython rounds the exact value of \<open>x\<close> to two decimals, ties to
  even, and returns the float nearest to that decimal.
\<close>

definition round2 :: "float \<Rightarrow> float" where
  "round2 x = (case fraction x of (p, q) \<Rightarrow> nearest_float (round_half_even (p * 100) q) 100)"

subsection \<open>The tables\<close>

definition DEFAULT_PHASES :: "(string \<times> string) list" where
  "DEFAULT_PHASES =
     [(''Phase 1 - General Prep'',
       ''Build foundation: sprint drills, general strength''),
      (''Phase 2 - Specific Prep'',
       ''Acceleration, max velocity, introduce 150m runs''),
      (''Phase 3 - Pre-Competition (Indoor)'',
       ''Sharpening, block starts, race sim (60/200)''),
      (''Phase 4 - Taper & Peak 1'',
       ''Taper into indoor peak''),
      (''Phase 5 - Transition/Recovery'',
       ''Active recovery, variation''),
      (''Phase 6 - Outdoor Build'',
       ''100/200m base, special endurance, bends''),
      (''Phase 7 - Pre-Competition Outdoor'',
       ''Race-specific prep (100/200)''),
      (''Phase 8 - Taper & Peak 2'',
       ''Taper into outdoor peak''),
      (''Phase 9 - Post-season Reset'',
       ''Active recovery & reset'')]"

definition ROTATIONS :: "(string \<times> string list) list" where
  "ROTATIONS =
     [(''Mon'',
       [''Warm-up + drills; Starts/accelerations; Core'',
        ''Warm-up + drills; Accel 30'' @ ndash @ ''40m; Relaxed 60m; Core'',
        ''Warm-up + drills; Accel 30m x8; Med ball; Core'',
        ''Warm-up + drills; Blocks; Accel; Short 50'' @ ndash @ ''60m; Core'']),
      (''Tue'',
       [''Drills; Flying 20'' @ ndash @ ''30m; Light plyo'',
        ''Drills; Relaxed strides; Bounding; Core'',
        ''Drills; Accel 30m; Hurdle hops; Med ball'',
        ''Drills; Flying 20'' @ ndash @ ''30m; Plyo circuit'']),
      (''Wed'',
       [''Bodyweight circuit (legs + push + core)'',
        ''Bands (rows, pull-aparts) + glutes + core'',
        ''Single-leg / balance strength + core'',
        ''Split squats + pull-aparts + stability core'']),
      (''Thu'',
       [''Key session: special endurance / race sim'',
        ''Key session: bend runs / race rhythm'',
        ''Key session: 150'' @ ndash @ ''200m @90'' @ ndash @ ''95% + starts'',
        ''Key session: race pace mix (100/200)'']),
      (''Fri'',
       [''Flying 20'' @ ndash @ ''30m; Blocks; Explosive circuit'',
        ''Accel 20'' @ ndash @ ''40m; Jump squats; Core'',
        ''Accel 20'' @ ndash @ ''30m; Bounding; Med ball'',
        ''Relaxed 40'' @ ndash @ ''60m; Blocks; Explosive lunges; Core'']),
      (''Sat'',
       [''Optional sprint (if fresh) or active recovery'',
        ''Optional: relaxed 150'' @ ndash @ ''200m + stretch'',
        ''Optional: accel + light plyo'',
        ''Optional: short race sim; or rest'']),
      (''Sun'',
       [''Rest / Competition'',
        ''Rest / Mobility'',
        ''Rest / Easy bike'',
        ''Rest''])]"

subsection \<open>The configuration\<close>

text \<open>
  A key read with \<^verbatim>\<open>.get(key, default)\<close> is an optional field; a key read with
  \<^verbatim>\<open>cfg[key]\<close> is a plain field. \<^verbatim>\<open>athlete_name\<close>, \<^verbatim>\<open>sex\<close>,
  \<^verbatim>\<open>pbs\<close> and \<^verbatim>\<open>events\<close> are the keys that the form writes and that
  \<^verbatim>\<open>build_schedule\<close> does not read.
\<close>

record slot =
  slot_start :: "string option"
  slot_end :: "string option"
  slot_location :: "string option"

record schedule_cfg =
  mode :: "string option"
  sessions_per_week :: "int option"
  include_time_prefix :: "bool option"
  slots :: "(string \<rightharpoonup> slot list) option"

record peaks_cfg =
  indoor_peak_dates :: "date list"
  outdoor_peak_date :: date

record config =
  season_start :: date
  season_end :: date
  athlete_name :: string
  age :: "int option"
  sex :: string
  pbs :: "(string \<times> float) list"
  bike_km_per_day :: "int option"
  peaks :: peaks_cfg
  events :: "string list"
  schedule :: "schedule_cfg option"

record week_row =
  week_of :: date
  phase :: string
  focus :: string
  mon :: string
  tue :: string
  wed :: string
  thu :: string
  fri :: string
  sat :: string
  sun :: string
  volume_modifier :: float

subsection \<open>The values read from the configuration\<close>

definition get :: "'a option \<Rightarrow> 'a \<Rightarrow> 'a" where
  "get v d = (case v of None \<Rightarrow> d | Some x \<Rightarrow> x)"

definition commute_factor :: "config \<Rightarrow> float" where
  "commute_factor cfg =
     (if 30 \<le> get (bike_km_per_day cfg) 0 then nearest_float 9 10 else nearest_float 1 1)"

definition age_factor :: "config \<Rightarrow> float" where
  "age_factor cfg = (if 16 \<le> get (age cfg) 15 then nearest_float 1 1 else nearest_float 95 100)"

definition empty_schedule :: schedule_cfg where
  "empty_schedule =
     \<lparr>mode = None, sessions_per_week = None, include_time_prefix = None, slots = None\<rparr>"

definition the_schedule_cfg :: "config \<Rightarrow> schedule_cfg" where
  "the_schedule_cfg cfg = get (schedule cfg) empty_schedule"

definition the_schedule_mode :: "config \<Rightarrow> string" where
  "the_schedule_mode cfg = get (mode (the_schedule_cfg cfg)) ''none''"

definition the_sessions_per_week :: "config \<Rightarrow> int" where
  "the_sessions_per_week cfg = get (sessions_per_week (the_schedule_cfg cfg)) 5"

definition the_include_time_prefix :: "config \<Rightarrow> bool" where
  "the_include_time_prefix cfg = get (include_time_prefix (the_schedule_cfg cfg)) True"

definition manual_slots :: "config \<Rightarrow> (string \<rightharpoonup> slot list)" where
  "manual_slots cfg = get (slots (the_schedule_cfg cfg)) Map.empty"

subsection \<open>The time-slot annotator\<close>

definition slot_text :: "slot \<Rightarrow> string" where
  "slot_text s =
     get (slot_start s) [] @ ''-'' @ get (slot_end s) [] @ '' @ '' @ get (slot_location s) []"

definition time_prefix_manual :: "slot list \<Rightarrow> string" where
  "time_prefix_manual ss = join '' + '' (map slot_text ss)"

record template =
  location :: string
  minutes :: int

definition template_5 :: "(string \<times> template) list" where
  "template_5 =
     [(''Mon'', \<lparr>location = ''Statina/Club'', minutes = 75\<rparr>),
      (''Tue'', \<lparr>location = ''Track'', minutes = 60\<rparr>),
      (''Wed'', \<lparr>location = ''Home (core)'', minutes = 60\<rparr>),
      (''Thu'', \<lparr>location = ''Papendal/Track'', minutes = 105\<rparr>),
      (''Fri'', \<lparr>location = ''Track'', minutes = 60\<rparr>)]"

definition template_4 :: "(string \<times> template) list" where
  "template_4 =
     [(''Mon'', \<lparr>location = ''Club/Track'', minutes = 75\<rparr>),
      (''Wed'', \<lparr>location = ''Home (core)'', minutes = 45\<rparr>),
      (''Thu'', \<lparr>location = ''Track'', minutes = 90\<rparr>),
      (''Fri'', \<lparr>location = ''Track'', minutes = 60\<rparr>)]"

definition template_6 :: "(string \<times> template) list" where
  "template_6 =
     [(''Mon'', \<lparr>location = ''Track'', minutes = 75\<rparr>),
      (''Tue'', \<lparr>location = ''Track'', minutes = 60\<rparr>),
      (''Wed'', \<lparr>location = ''Home (core)'', minutes = 60\<rparr>),
      (''Thu'', \<lparr>location = ''Track'', minutes = 105\<rparr>),
      (''Fri'', \<lparr>location = ''Track'', minutes = 60\<rparr>),
      (''Sat'', \<lparr>location = ''Track (optional)'', minutes = 90\<rparr>)]"

text \<open>The dictionary \<^verbatim>\<open>templates\<close>, its keys in the order of the source.\<close>

definition templates :: "(int \<times> (string \<times> template) list) list" where
  "templates = [(5, template_5), (4, template_4), (6, template_6)]"

definition time_prefix_auto :: "string \<Rightarrow> int \<Rightarrow> string" where
  "time_prefix_auto day spw =
     (case map_of (get (map_of templates spw) template_5) day of
        None \<Rightarrow> []
      | Some t \<Rightarrow>
          if minutes t = 0 then []
          else ''(@ '' @ location t @ '', ~'' @ str_int (minutes t) @ '' min) '' @ mdash @ '' '')"

subsection \<open>The schedule builder\<close>

text \<open>\<^verbatim>\<open>ROTATIONS[day][rot_idx]\<close>.\<close>

definition rotation_text :: "string \<Rightarrow> nat \<Rightarrow> error + string" where
  "rotation_text day rot_idx =
     (case map_of ROTATIONS day of
        None \<Rightarrow> Inl KeyError
      | Some ts \<Rightarrow> if rot_idx < length ts then Inr (ts ! rot_idx) else Inl IndexError)"

definition time_prefix :: "config \<Rightarrow> string \<Rightarrow> string" where
  "time_prefix cfg day =
     (if the_include_time_prefix cfg then
        if the_schedule_mode cfg = ''manual'' then
          (let ss = get (manual_slots cfg day) []
           in if ss \<noteq> [] then time_prefix_manual ss @ '' '' @ mdash @ '' '' else [])
        else if the_schedule_mode cfg = ''auto'' then
          time_prefix_auto day (the_sessions_per_week cfg)
        else []
      else [])"

definition day_cell :: "config \<Rightarrow> nat \<Rightarrow> string \<Rightarrow> error + string" where
  "day_cell cfg rot_idx day =
     bind (rotation_text day rot_idx) (\<lambda>base_text.
       let prefix = time_prefix cfg day
       in Inr (if prefix \<noteq> [] then prefix @ base_text else base_text))"

definition vol_mod :: "config \<Rightarrow> string \<Rightarrow> float" where
  "vol_mod cfg ph =
     (let v0 = round2 (float_mul (commute_factor cfg) (age_factor cfg));
          v1 = (if contains ''Taper'' ph then nearest_float 5 10 else v0)
      in if contains ''Transition'' ph \<or> contains ''Post-season'' ph
         then nearest_float 4 10 else v1)"

definition make_row :: "config \<Rightarrow> nat \<Rightarrow> date \<Rightarrow> string \<Rightarrow> error + week_row" where
  "make_row cfg i w ph =
     (let rot_idx = i mod 4;
          foc = get (map_of DEFAULT_PHASES ph) []
      in bind (day_cell cfg rot_idx ''Mon'') (\<lambda>c1.
         bind (day_cell cfg rot_idx ''Tue'') (\<lambda>c2.
         bind (day_cell cfg rot_idx ''Wed'') (\<lambda>c3.
         bind (day_cell cfg rot_idx ''Thu'') (\<lambda>c4.
         bind (day_cell cfg rot_idx ''Fri'') (\<lambda>c5.
         bind (day_cell cfg rot_idx ''Sat'') (\<lambda>c6.
         bind (day_cell cfg rot_idx ''Sun'') (\<lambda>c7.
         Inr \<lparr>week_of = w, phase = ph, focus = foc,
              mon = c1, tue = c2, wed = c3, thu = c4, fri = c5, sat = c6, sun = c7,
              volume_modifier = vol_mod cfg ph\<rparr>))))))))"

text \<open>The loop over \<^verbatim>\<open>enumerate(weeks)\<close>.\<close>

fun rows_loop :: "config \<Rightarrow> phase_range list \<Rightarrow> (nat \<times> date) list \<Rightarrow> error + week_row list" where
  "rows_loop cfg ps [] = Inr []"
| "rows_loop cfg ps ((i, w) # rest) =
     (let ph = phase_for ps w
      in if ph = [] then rows_loop cfg ps rest
         else bind (make_row cfg i w ph) (\<lambda>r.
              bind (rows_loop cfg ps rest) (\<lambda>rs. Inr (r # rs))))"

definition build_schedule :: "config \<Rightarrow> error + week_row list" where
  "build_schedule cfg =
     (let start = season_start cfg;
          end' = season_end cfg;
          weeks = date_range_W_MON start end'
      in case indoor_peak_dates (peaks cfg) of
           [] \<Rightarrow> Inl IndexError
         | peak1 # _ \<Rightarrow>
             bind (phases_cfg start end' peak1 (outdoor_peak_date (peaks cfg)))
               (\<lambda>ps. rows_loop cfg ps (enumerate 0 weeks)))"

subsection \<open>The taper advisor\<close>

record taper =
  volume_change :: string
  intensity :: string
  key_sessions :: string
  strength :: string
  rest_days :: string
  taper_notes :: string

definition taper_protocol :: "string \<Rightarrow> string \<Rightarrow> taper" where
  "taper_protocol priority peak_type =
     (if priority = ''A'' then
        \<lparr>volume_change = ''-40% to -60%'',
         intensity = ''High (short & sharp)'',
         key_sessions = ''Mon: starts/accel; Tue: flying 20'' @ ndash @ ''30m; Thu: race-pace touches; Fri: micro-priming'',
         strength = ''Explosive only (bodyweight/bands)'',
         rest_days = ge_sign @ ''1 full rest day before race'',
         taper_notes = ''A-peak ('' @ peak_type @ ''): keep CNS fresh; no fatigue-dense work last 72h''\<rparr>
      else if priority = ''B'' then
        \<lparr>volume_change = ''-20% to -30%'',
         intensity = ''Moderate-high'',
         key_sessions = ''Short starts + 1 race-pace rep'',
         strength = ''Light explosive set'',
         rest_days = ''Optional rest day before race'',
         taper_notes = ''Rehearsal race; do not over-taper''\<rparr>
      else
        \<lparr>volume_change = ''No change or -10%'',
         intensity = ''Normal training'',
         key_sessions = ''Keep routine; short starts'',
         strength = ''Normal'',
         rest_days = ''None required'',
         taper_notes = ''Training race; prioritize learning''\<rparr>)"

subsection \<open>Auxiliary notions of the statements\<close>

text \<open>The weekday names, in the order of the loop that fills \<^verbatim>\<open>day_cells\<close>.\<close>

definition DAYS :: "string list" where
  "DAYS = [''Mon'', ''Tue'', ''Wed'', ''Thu'', ''Fri'', ''Sat'', ''Sun'']"

text \<open>The test \<^verbatim>\<open>s <= date <= e\<close> of \<^verbatim>\<open>phase_for\<close>.\<close>

definition in_phase :: "phase_range \<Rightarrow> date \<Rightarrow> bool" where
  "in_phase p d = (fst (snd p) \<le> d \<and> d \<le> snd (snd p))"

text \<open>
  The selection of the specification: \<^verbatim>\<open>select(day_of_week, week_index)\<close> is the
  template number \<open>week_index mod 4\<close> of the day.
\<close>

definition select :: "string \<Rightarrow> nat \<Rightarrow> string" where
  "select day week_index =
     (case map_of ROTATIONS day of None \<Rightarrow> [] | Some ts \<Rightarrow> ts ! (week_index mod 4))"

text \<open>The text of a day cell for a given rotation text: \<^verbatim>\<open>f"{prefix}{base_text}" if prefix else base_text\<close>.\<close>

definition with_prefix :: "config \<Rightarrow> string \<Rightarrow> string \<Rightarrow> string" where
  "with_prefix cfg day base_text =
     (if time_prefix cfg day \<noteq> [] then time_prefix cfg day @ base_text else base_text)"

text \<open>The rows of a result; none when the builder raised.\<close>

fun rows_of :: "error + week_row list \<Rightarrow> week_row list" where
  "rows_of (Inl e) = []"
| "rows_of (Inr rows) = rows"

subsection \<open>Example configurations\<close>

text \<open>The configuration that the form yields with its default values.\<close>

definition scenario_cfg :: config where
  "scenario_cfg =
     \<lparr>season_start = ymd2ord 2025 9 1,
      season_end = ymd2ord 2026 7 1,
      athlete_name = ''Kylie'',
      age = Some 15,
      sex = ''F'',
      pbs = [(''60m'', nearest_float 858 100), (''100m'', nearest_float 1348 100),
             (''200m'', nearest_float 2909 100)],
      bike_km_per_day = Some 32,
      peaks = \<lparr>indoor_peak_dates = [ymd2ord 2026 2 21, ymd2ord 2026 2 22],
               outdoor_peak_date = ymd2ord 2026 6 28\<rparr>,
      events = [''60m'', ''100m'', ''200m''],
      schedule = None\<rparr>"

definition auto_schedule :: schedule_cfg where
  "auto_schedule =
     \<lparr>mode = Some ''auto'', sessions_per_week = Some 5, include_time_prefix = Some False,
      slots = Some Map.empty\<rparr>"

text \<open>A season of one week, Monday 2026-02-16 to Sunday 2026-02-22.\<close>

definition taper_week_cfg :: config where
  "taper_week_cfg =
     scenario_cfg\<lparr>season_start := ymd2ord 2026 2 16, season_end := ymd2ord 2026 2 22,
       schedule := Some auto_schedule\<rparr>"

definition taper_week_row :: week_row where
  "taper_week_row =
     \<lparr>week_of = 739663,
      phase = ''Phase 4 - Taper & Peak 1'',
      focus = ''Taper into indoor peak'',
      mon = ''Warm-up + drills; Starts/accelerations; Core'',
      tue = ''Drills; Flying 20'' @ ndash @ ''30m; Light plyo'',
      wed = ''Bodyweight circuit (legs + push + core)'',
      thu = ''Key session: special endurance / race sim'',
      fri = ''Flying 20'' @ ndash @ ''30m; Blocks; Explosive circuit'',
      sat = ''Optional sprint (if fresh) or active recovery'',
      sun = ''Rest / Competition'',
      volume_modifier = nearest_float 5 10\<rparr>"

text \<open>A season without a Monday, Tuesday 2026-02-17 to Friday 2026-02-20.\<close>

definition no_monday_cfg :: config where
  "no_monday_cfg =
     scenario_cfg\<lparr>season_start := ymd2ord 2026 2 17, season_end := ymd2ord 2026 2 20\<rparr>"

text \<open>The scenario with another athlete and another second indoor peak day.\<close>

definition other_athlete_cfg :: config where
  "other_athlete_cfg =
     scenario_cfg\<lparr>athlete_name := ''Sam'', sex := ''M'', pbs := [], events := [''400m''],
       peaks := \<lparr>indoor_peak_dates = [ymd2ord 2026 2 21, ymd2ord 2026 3 1],
                 outdoor_peak_date = ymd2ord 2026 6 28\<rparr>\<rparr>"

section \<open>Properties\<close>

subsection \<open>Evaluation rules\<close>

lemma bit_length_0: "bit_length 0 = 0"
  by (simp add: bit_length.simps)

lemma bit_length_pos: "0 < n \<Longrightarrow> bit_length n = Suc (bit_length (n div 2))"
  by (subst bit_length.simps) simp

lemmas float_eval = nearest_float_def scale_def round_half_even_def fraction_def float_mul_def
  round2_def bit_length_0 bit_length_pos Let_def

lemma float_literals:
  "nearest_float 9 10 = (8106479329266893, - 53)"
  "nearest_float 95 100 = (8556839292003942, - 53)"
  "nearest_float 1 1 = (4503599627370496, - 52)"
  "nearest_float 5 10 = (4503599627370496, - 53)"
  "nearest_float 4 10 = (7205759403792794, - 54)"
  "nearest_float 85 100 = (7656119366529843, - 53)"
  "nearest_float 86 100 = (7746191359077253, - 53)"
  by (simp_all add: float_eval)

lemma float_product: "float_mul (nearest_float 9 10) (nearest_float 95 100) = (7701155362803548, - 53)"
  by (simp add: float_eval)

lemma round2_products:
  "round2 (float_mul (nearest_float 9 10) (nearest_float 95 100)) = nearest_float 85 100"
  "round2 (float_mul (nearest_float 9 10) (nearest_float 1 1)) = nearest_float 9 10"
  "round2 (float_mul (nearest_float 1 1) (nearest_float 95 100)) = nearest_float 95 100"
  "round2 (float_mul (nearest_float 1 1) (nearest_float 1 1)) = nearest_float 1 1"
  by (simp_all add: float_eval)

lemma str_nat_small: "n < 10 \<Longrightarrow> str_nat n = [''0123456789'' ! n]"
  by (subst str_nat.simps) simp

lemma str_nat_large: "10 \<le> n \<Longrightarrow> str_nat n = str_nat (n div 10) @ [''0123456789'' ! (n mod 10)]"
  by (subst str_nat.simps) simp

lemmas auto_eval = time_prefix_auto_def templates_def template_5_def template_4_def template_6_def
  get_def str_int_def str_nat_small str_nat_large mdash_def

lemma weekly_step: "d \<le> end' \<Longrightarrow> weekly d end' = d # weekly (d + 7) end'"
  by (subst weekly.simps) simp

lemma weekly_stop: "end' < d \<Longrightarrow> weekly d end' = []"
  by (subst weekly.simps) simp

lemma ords: "ymd2ord 2025 9 1 = 739495" "ymd2ord 2026 7 1 = 739798" "ymd2ord 2026 2 21 = 739668"
  "ymd2ord 2026 6 28 = 739795" "ymd2ord 2026 2 16 = 739663"
  by (simp_all add: ymd2ord_def days_before_year_def days_before_month_def DAYS_BEFORE_MONTH_def is_leap_def)

lemmas date_eval = ymd2ord_def days_before_year_def days_before_month_def DAYS_BEFORE_MONTH_def
  is_leap_def date_range_W_MON_def rollforward_monday_def weekday_def weekly_step weekly_stop
  peaks_in_range_def MINORD_def MAXORD_def

lemmas cfg_eval = scenario_cfg_def taper_week_cfg_def no_monday_cfg_def other_athlete_cfg_def
  auto_schedule_def the_schedule_cfg_def the_schedule_mode_def the_sessions_per_week_def
  the_include_time_prefix_def manual_slots_def empty_schedule_def get_def commute_factor_def
  age_factor_def

lemmas row_eval = make_row_def day_cell_def rotation_text_def ROTATIONS_def DEFAULT_PHASES_def
  time_prefix_def vol_mod_def starts_with_def bind_def Let_def phase_table_def

subsection \<open>Phase segmentation\<close>

lemma phases_cfg_in_range:
  assumes "peaks_in_range peak1 peak2"
  shows "phases_cfg start end' peak1 peak2 = Inr (phase_table start end' peak1 peak2)"
  using assms
  by (simp add: phases_cfg_def phase_table_def peaks_in_range_def plus_days_def bind_def
      MINORD_def MAXORD_def)

lemma phases_cfg_overflow:
  assumes "\<not> peaks_in_range peak1 peak2"
  shows "phases_cfg start end' peak1 peak2 = Inl OverflowError"
  using assms
  by (auto simp: phases_cfg_def peaks_in_range_def plus_days_def bind_def MINORD_def MAXORD_def)

lemma contiguous_phase_table: "contiguous (phase_table start end' peak1 peak2)"
  unfolding contiguous_def phase_table_def
  by (auto simp: less_Suc_eq nth_Cons')

text \<open>
  Claim C1. The segmentation returns the nine phases "Phase 1" to "Phase 9" in this order,
  with the boundaries of the phase table: Phase 1 from the season start to 84 days before
  the indoor peak, ..., Phase 9 from the day after the outdoor peak to the season end. Each
  phase starts on the day after the previous one ends. This holds whenever the fourteen
  date differences are dates of the years 1 to 9999 (\<open>peaks_in_range\<close>); otherwise the
  date arithmetic raises OverflowError.
\<close>

theorem phase_segmentation:
  "phases_cfg start end' peak1 peak2 =
     (if peaks_in_range peak1 peak2 then Inr (phase_table start end' peak1 peak2)
      else Inl OverflowError)
   \<and> length (phase_table start end' peak1 peak2) = 9
   \<and> contiguous (phase_table start end' peak1 peak2)"
  by (simp add: phases_cfg_in_range phases_cfg_overflow contiguous_phase_table)
     (simp add: phase_table_def)

theorem phase_segmentation_witness:
  "phases_cfg 739495 739798 739668 739795 =
     Inr [(''Phase 1 - General Prep'', 739495, 739584),
          (''Phase 2 - Specific Prep'', 739585, 739633),
          (''Phase 3 - Pre-Competition (Indoor)'', 739634, 739661),
          (''Phase 4 - Taper & Peak 1'', 739662, 739668),
          (''Phase 5 - Transition/Recovery'', 739669, 739682),
          (''Phase 6 - Outdoor Build'', 739683, 739746),
          (''Phase 7 - Pre-Competition Outdoor'', 739747, 739781),
          (''Phase 8 - Taper & Peak 2'', 739782, 739795),
          (''Phase 9 - Post-season Reset'', 739796, 739798)]
   \<and> Suc 3 < length (phase_table 739495 739798 739668 739795)
   \<and> snd (snd (phase_table 739495 739798 739668 739795 ! 3)) + 1
       = fst (snd (phase_table 739495 739798 739668 739795 ! Suc 3))"
  using phase_segmentation [of 739495 739798 739668 739795]
  by (simp add: peaks_in_range_def MINORD_def MAXORD_def phase_table_def contiguous_def)

subsection \<open>Phase resolution\<close>

lemma phase_for_first:
  assumes "i < length ps" "in_phase (ps ! i) d" "\<forall>j<i. \<not> in_phase (ps ! j) d"
  shows "phase_for ps d = fst (ps ! i)"
  using assms
proof (induction ps arbitrary: i)
  case Nil
  then show ?case by simp
next
  case (Cons p ps)
  obtain name s e where p: "p = (name, s, e)" by (cases p)
  show ?case
  proof (cases i)
    case 0
    then show ?thesis using Cons.prems p by (simp add: in_phase_def)
  next
    case (Suc k)
    have "\<not> in_phase p d" using Cons.prems(3) Suc by (metis nth_Cons_0 zero_less_Suc)
    moreover have "phase_for ps d = fst (ps ! k)"
    proof (rule Cons.IH)
      show "k < length ps" using Cons.prems(1) Suc by simp
      show "in_phase (ps ! k) d" using Cons.prems(2) Suc by simp
      show "\<forall>j<k. \<not> in_phase (ps ! j) d"
      proof (intro allI impI)
        fix j assume "j < k"
        then have "Suc j < i" using Suc by simp
        then have "\<not> in_phase ((p # ps) ! Suc j) d" using Cons.prems(3) by blast
        then show "\<not> in_phase (ps ! j) d" by simp
      qed
    qed
    ultimately show ?thesis using p Suc by (auto simp: in_phase_def)
  qed
qed

lemma phase_for_none:
  assumes "\<forall>p\<in>set ps. \<not> in_phase p d"
  shows "phase_for ps d = []"
  using assms by (induction ps) (auto simp: in_phase_def)

lemma phase_for_names: "phase_for ps d \<noteq> [] \<Longrightarrow> phase_for ps d \<in> fst ` set ps"
  by (induction ps) (auto split: if_splits)

lemma phase_for_covered:
  assumes "start \<le> d" "d \<le> end'"
  shows "phase_for (phase_table start end' peak1 peak2) d \<noteq> []"
  using assms by (simp add: phase_table_def)

lemma taper_names:
  assumes "ph \<in> fst ` set (phase_table start end' peak1 peak2)" "contains ''Taper'' ph"
  shows "\<not> contains ''Transition'' ph \<and> \<not> contains ''Post-season'' ph"
  using assms by (auto simp: phase_table_def starts_with_def)

subsection \<open>The weekly anchors\<close>

lemma set_weekly: "set (weekly d end') = {x. d \<le> x \<and> x \<le> end' \<and> (x - d) mod 7 = 0}"
proof (induction d end' rule: weekly.induct)
  case (1 d end')
  show ?case
  proof (cases "d \<le> end'")
    case True
    have "{x. d \<le> x \<and> x \<le> end' \<and> (x - d) mod 7 = 0}
            = insert d {x. d + 7 \<le> x \<and> x \<le> end' \<and> (x - (d + 7)) mod 7 = 0}"
      using True by (auto; presburger)
    then show ?thesis using True 1 by (simp add: weekly_step)
  next
    case False
    then show ?thesis by (auto simp: weekly_stop)
  qed
qed


lemma distinct_weekly: "distinct (weekly d end')"
proof (induction d end' rule: weekly.induct)
  case (1 d end')
  show ?case
  proof (cases "d \<le> end'")
    case True
    then show ?thesis using 1 by (auto simp: weekly_step set_weekly)
  next
    case False
    then show ?thesis by (simp add: weekly_stop)
  qed
qed

lemma set_date_range:
  "set (date_range_W_MON start end') = {d. start \<le> d \<and> d \<le> end' \<and> weekday d = 0}"
  unfolding date_range_W_MON_def set_weekly rollforward_monday_def weekday_def
  by (auto; presburger)

subsection \<open>The rotation\<close>

lemma rotation_text_days:
  assumes "day \<in> set DAYS"
  shows "\<exists>ts. map_of ROTATIONS day = Some ts \<and> length ts = 4"
  using assms by (auto simp: DAYS_def ROTATIONS_def)

lemma rotation_templates:
  assumes "day \<in> set DAYS"
  shows "\<exists>ts. map_of ROTATIONS day = Some ts \<and> length ts = 4 \<and> distinct ts"
  using assms by (auto simp: DAYS_def ROTATIONS_def ndash_def)

lemma rotation_text_ok:
  assumes "day \<in> set DAYS" "idx < 4"
  shows "\<exists>t. rotation_text day idx = Inr t"
proof -
  from rotation_text_days [OF assms(1)] obtain ts
    where "map_of ROTATIONS day = Some ts" "length ts = 4" by blast
  then show ?thesis using assms(2) by (simp add: rotation_text_def)
qed

subsection \<open>The annotator in auto mode\<close>

lemma auto_thu_5: "time_prefix_auto ''Thu'' 5 = ''(@ Papendal/Track, ~105 min) '' @ mdash @ '' ''"
  by (simp add: auto_eval)

lemma auto_fallback: "spw \<notin> {4, 5, 6} \<Longrightarrow> time_prefix_auto day spw = time_prefix_auto day 5"
  by (simp add: time_prefix_auto_def templates_def get_def)

text \<open>
  Claim C5 says that the table of the auto mode has the keys 3, 4, 5 and 6. The table has the
  keys 5, 4 and 6 only: three sessions per week get the table of five sessions, with a
  prefix on the five days Monday to Friday.
\<close>

theorem auto_three_sessions:
  "map_of templates 3 = None
   \<and> time_prefix_auto ''Tue'' 3 = ''(@ Track, ~60 min) '' @ mdash @ '' ''
   \<and> map (\<lambda>day. time_prefix_auto day 3 \<noteq> []) DAYS = [True, True, True, True, True, False, False]"
  by (simp add: auto_eval DAYS_def)

subsection \<open>Rows\<close>

lemma day_cell_ok:
  assumes "day \<in> set DAYS" "idx < 4"
  shows "\<exists>c. day_cell cfg idx day = Inr c"
proof -
  from rotation_text_ok [OF assms] obtain t where "rotation_text day idx = Inr t" by blast
  then show ?thesis by (simp add: day_cell_def bind_def Let_def)
qed

lemma day_cell_no_prefix:
  assumes "time_prefix cfg day = []"
  shows "day_cell cfg idx day = rotation_text day idx"
  using assms by (cases "rotation_text day idx") (simp_all add: day_cell_def bind_def)

lemma make_row_ok: "\<exists>r. make_row cfg i w ph = Inr r"
proof -
  have idx: "i mod 4 < 4" by simp
  obtain c1 where c1: "day_cell cfg (i mod 4) ''Mon'' = Inr c1"
    using day_cell_ok [OF _ idx, of "''Mon''" cfg] by (auto simp: DAYS_def)
  obtain c2 where c2: "day_cell cfg (i mod 4) ''Tue'' = Inr c2"
    using day_cell_ok [OF _ idx, of "''Tue''" cfg] by (auto simp: DAYS_def)
  obtain c3 where c3: "day_cell cfg (i mod 4) ''Wed'' = Inr c3"
    using day_cell_ok [OF _ idx, of "''Wed''" cfg] by (auto simp: DAYS_def)
  obtain c4 where c4: "day_cell cfg (i mod 4) ''Thu'' = Inr c4"
    using day_cell_ok [OF _ idx, of "''Thu''" cfg] by (auto simp: DAYS_def)
  obtain c5 where c5: "day_cell cfg (i mod 4) ''Fri'' = Inr c5"
    using day_cell_ok [OF _ idx, of "''Fri''" cfg] by (auto simp: DAYS_def)
  obtain c6 where c6: "day_cell cfg (i mod 4) ''Sat'' = Inr c6"
    using day_cell_ok [OF _ idx, of "''Sat''" cfg] by (auto simp: DAYS_def)
  obtain c7 where c7: "day_cell cfg (i mod 4) ''Sun'' = Inr c7"
    using day_cell_ok [OF _ idx, of "''Sun''" cfg] by (auto simp: DAYS_def)
  show ?thesis
    by (simp add: make_row_def Let_def bind_def c1 c2 c3 c4 c5 c6 c7)
qed

lemma make_row_fields:
  assumes "make_row cfg i w ph = Inr r"
  shows "week_of r = w" "phase r = ph" "volume_modifier r = vol_mod cfg ph"
    "focus r = get (map_of DEFAULT_PHASES ph) []"
    "day_cell cfg (i mod 4) ''Mon'' = Inr (mon r)"
    "day_cell cfg (i mod 4) ''Tue'' = Inr (tue r)"
    "day_cell cfg (i mod 4) ''Wed'' = Inr (wed r)"
    "day_cell cfg (i mod 4) ''Thu'' = Inr (thu r)"
    "day_cell cfg (i mod 4) ''Fri'' = Inr (fri r)"
    "day_cell cfg (i mod 4) ''Sat'' = Inr (sat r)"
    "day_cell cfg (i mod 4) ''Sun'' = Inr (sun r)"
  using assms
  by (auto simp: make_row_def Let_def bind_def split: sum.splits)

lemma rows_loop_total: "\<exists>rows. rows_loop cfg ps iws = Inr rows"
proof (induction iws)
  case Nil
  then show ?case by simp
next
  case (Cons iw iws)
  obtain i w where iw: "iw = (i, w)" by (cases iw)
  obtain rs where rs: "rows_loop cfg ps iws = Inr rs" using Cons by blast
  obtain r where r: "make_row cfg i w (phase_for ps w) = Inr r" using make_row_ok by blast
  show ?case by (simp add: iw rs r Let_def bind_def)
qed

lemma rows_loop_weeks:
  assumes "rows_loop cfg ps iws = Inr rows"
  shows "map week_of rows = filter (\<lambda>w. phase_for ps w \<noteq> []) (map snd iws)"
  using assms
proof (induction iws arbitrary: rows)
  case Nil
  then show ?case by simp
next
  case (Cons iw iws)
  obtain i w where iw: "iw = (i, w)" by (cases iw)
  show ?case
  proof (cases "phase_for ps w = []")
    case True
    then show ?thesis using Cons iw by (simp add: Let_def)
  next
    case False
    then obtain r rs where r: "make_row cfg i w (phase_for ps w) = Inr r"
      and rs: "rows_loop cfg ps iws = Inr rs" and rows: "rows = r # rs"
      using Cons.prems iw by (auto simp: Let_def bind_def split: sum.splits)
    show ?thesis using False Cons.IH [OF rs] make_row_fields(1) [OF r] by (simp add: iw rows)
  qed
qed

lemma rows_loop_member:
  assumes "rows_loop cfg ps iws = Inr rows" "r \<in> set rows"
  shows "\<exists>i w. (i, w) \<in> set iws \<and> phase_for ps w \<noteq> [] \<and> make_row cfg i w (phase_for ps w) = Inr r"
  using assms
proof (induction iws arbitrary: rows)
  case Nil
  then show ?case by simp
next
  case (Cons iw iws)
  obtain i w where iw: "iw = (i, w)" by (cases iw)
  show ?case
  proof (cases "phase_for ps w = []")
    case True
    then have "rows_loop cfg ps iws = Inr rows" using Cons.prems(1) iw by (simp add: Let_def)
    from Cons.IH [OF this Cons.prems(2)] show ?thesis by auto
  next
    case False
    then obtain r' rs where r': "make_row cfg i w (phase_for ps w) = Inr r'"
      and rs: "rows_loop cfg ps iws = Inr rs" and rows: "rows = r' # rs"
      using Cons.prems iw by (auto simp: Let_def bind_def split: sum.splits)
    show ?thesis
    proof (cases "r = r'")
      case True
      then show ?thesis using False r' iw by auto
    next
      case False
      then have "r \<in> set rs" using Cons.prems(2) rows by simp
      from Cons.IH [OF rs this] show ?thesis by auto
    qed
  qed
qed

lemma rows_loop_hd:
  assumes "rows_loop cfg ps ((i, w) # iws) = Inr rows" "phase_for ps w \<noteq> []"
  shows "rows \<noteq> [] \<and> make_row cfg i w (phase_for ps w) = Inr (hd rows)"
  using assms by (auto simp: Let_def bind_def split: sum.splits)

lemma rows_loop_cong:
  assumes "\<And>i w ph. make_row cfg i w ph = make_row cfg' i w ph"
  shows "rows_loop cfg ps iws = rows_loop cfg' ps iws"
proof (induction iws)
  case Nil
  then show ?case by simp
next
  case (Cons iw iws)
  obtain i w where "iw = (i, w)" by (cases iw)
  then show ?case using Cons assms by (simp add: Let_def)
qed

lemma day_cell_select:
  assumes "day \<in> set DAYS"
  shows "day_cell cfg (n mod 4) day = Inr (with_prefix cfg day (select day n))"
proof -
  from rotation_templates [OF assms] obtain ts where
    "map_of ROTATIONS day = Some ts" "length ts = 4" by blast
  then show ?thesis
    by (simp add: day_cell_def rotation_text_def bind_def Let_def with_prefix_def select_def)
qed

lemma make_row_select:
  assumes "make_row cfg n w ph = Inr r"
  shows "mon r = with_prefix cfg ''Mon'' (select ''Mon'' n)
       \<and> tue r = with_prefix cfg ''Tue'' (select ''Tue'' n)
       \<and> wed r = with_prefix cfg ''Wed'' (select ''Wed'' n)
       \<and> thu r = with_prefix cfg ''Thu'' (select ''Thu'' n)
       \<and> fri r = with_prefix cfg ''Fri'' (select ''Fri'' n)
       \<and> sat r = with_prefix cfg ''Sat'' (select ''Sat'' n)
       \<and> sun r = with_prefix cfg ''Sun'' (select ''Sun'' n)"
proof -
  have d: "''Mon'' \<in> set DAYS" "''Tue'' \<in> set DAYS" "''Wed'' \<in> set DAYS" "''Thu'' \<in> set DAYS"
    "''Fri'' \<in> set DAYS" "''Sat'' \<in> set DAYS" "''Sun'' \<in> set DAYS"
    by (simp_all add: DAYS_def)
  show ?thesis
    using make_row_fields(5-11) [OF assms]
    by (simp add: day_cell_select [OF d(1)] day_cell_select [OF d(2)] day_cell_select [OF d(3)]
        day_cell_select [OF d(4)] day_cell_select [OF d(5)] day_cell_select [OF d(6)]
        day_cell_select [OF d(7)])
qed

subsection \<open>The builder\<close>

lemma build_schedule_cases:
  "build_schedule cfg =
     (case indoor_peak_dates (peaks cfg) of
        [] \<Rightarrow> Inl IndexError
      | peak1 # _ \<Rightarrow>
          if peaks_in_range peak1 (outdoor_peak_date (peaks cfg))
          then rows_loop cfg
                 (phase_table (season_start cfg) (season_end cfg) peak1 (outdoor_peak_date (peaks cfg)))
                 (enumerate 0 (date_range_W_MON (season_start cfg) (season_end cfg)))
          else Inl OverflowError)"
  by (simp add: build_schedule_def Let_def bind_def phases_cfg_in_range phases_cfg_overflow
      split: list.splits)

lemma build_schedule_total:
  assumes "indoor_peak_dates (peaks cfg) = peak1 # others"
    "peaks_in_range peak1 (outdoor_peak_date (peaks cfg))"
  shows "\<exists>rows. build_schedule cfg = Inr rows"
  using assms rows_loop_total by (simp add: build_schedule_cases)

lemma build_schedule_Inr:
  assumes "build_schedule cfg = Inr rows"
  shows "\<exists>peak1 others. indoor_peak_dates (peaks cfg) = peak1 # others
      \<and> peaks_in_range peak1 (outdoor_peak_date (peaks cfg))
      \<and> rows_loop cfg
           (phase_table (season_start cfg) (season_end cfg) peak1 (outdoor_peak_date (peaks cfg)))
           (enumerate 0 (date_range_W_MON (season_start cfg) (season_end cfg))) = Inr rows"
  using assms by (auto simp: build_schedule_cases split: list.splits if_splits)

lemma map_snd_enumerate: "map snd (enumerate n xs) = xs"
  by (induction xs arbitrary: n) auto


lemma row_of_build:
  assumes "build_schedule cfg = Inr rows" "r \<in> set rows"
  shows "\<exists>peak1 i w. peaks_in_range peak1 (outdoor_peak_date (peaks cfg))
      \<and> i < length (date_range_W_MON (season_start cfg) (season_end cfg))
      \<and> date_range_W_MON (season_start cfg) (season_end cfg) ! i = w
      \<and> phase_for (phase_table (season_start cfg) (season_end cfg) peak1
            (outdoor_peak_date (peaks cfg))) w \<noteq> []
      \<and> make_row cfg i w (phase_for (phase_table (season_start cfg) (season_end cfg) peak1
            (outdoor_peak_date (peaks cfg))) w) = Inr r"
proof -
  from build_schedule_Inr [OF assms(1)] obtain peak1 where
    pr: "peaks_in_range peak1 (outdoor_peak_date (peaks cfg))" and
    rl: "rows_loop cfg
       (phase_table (season_start cfg) (season_end cfg) peak1 (outdoor_peak_date (peaks cfg)))
       (enumerate 0 (date_range_W_MON (season_start cfg) (season_end cfg))) = Inr rows"
    by blast
  from rows_loop_member [OF rl assms(2)] obtain i w where
    iw: "(i, w) \<in> set (enumerate 0 (date_range_W_MON (season_start cfg) (season_end cfg)))"
    and ph: "phase_for (phase_table (season_start cfg) (season_end cfg) peak1
            (outdoor_peak_date (peaks cfg))) w \<noteq> []"
    and mr: "make_row cfg i w (phase_for (phase_table (season_start cfg) (season_end cfg) peak1
            (outdoor_peak_date (peaks cfg))) w) = Inr r"
    by blast
  from iw have "i < length (date_range_W_MON (season_start cfg) (season_end cfg))"
    "date_range_W_MON (season_start cfg) (season_end cfg) ! i = w"
    by (simp_all add: in_set_enumerate_eq)
  with pr ph mr show ?thesis by blast
qed

lemma taper_week_rows: "build_schedule taper_week_cfg = Inr [taper_week_row]"
  by (simp add: build_schedule_cases cfg_eval date_eval row_eval taper_week_row_def)

lemma no_monday_rows: "build_schedule no_monday_cfg = Inr []"
  by (simp add: build_schedule_cases cfg_eval date_eval)

lemma no_monday_weeks:
  "date_range_W_MON (season_start no_monday_cfg) (season_end no_monday_cfg) = []"
  by (simp add: cfg_eval date_eval)

text \<open>
  Claim C6. Every weekday has exactly four templates, all different; the text looked up for
  anchor index \<open>n\<close> is the template number \<open>n mod 4\<close>, which is \<open>select day n\<close>; the
  selection for \<open>n + 4\<close> is the selection for \<open>n\<close>. The cell that the builder writes for
  anchor index \<open>n\<close> and a weekday is \<open>select day n\<close> behind the optional prefix, in
  \<^verbatim>\<open>make_row\<close> and in every row of a returned schedule.
\<close>

theorem rotation_periodic:
  assumes "day \<in> set DAYS"
  shows "(\<exists>ts. map_of ROTATIONS day = Some ts \<and> length ts = 4 \<and> distinct ts
           \<and> rotation_text day (n mod 4) = Inr (ts ! (n mod 4))
           \<and> rotation_text day ((n + 4) mod 4) = rotation_text day (n mod 4)
           \<and> make_row cfg (n + 4) w ph = make_row cfg n w ph
           \<and> select day n = ts ! (n mod 4))
       \<and> select day (n + 4) = select day n
       \<and> day_cell cfg (n mod 4) day = Inr (with_prefix cfg day (select day n))
       \<and> (\<exists>r. make_row cfg n w ph = Inr r
             \<and> mon r = with_prefix cfg ''Mon'' (select ''Mon'' n)
             \<and> tue r = with_prefix cfg ''Tue'' (select ''Tue'' n)
             \<and> wed r = with_prefix cfg ''Wed'' (select ''Wed'' n)
             \<and> thu r = with_prefix cfg ''Thu'' (select ''Thu'' n)
             \<and> fri r = with_prefix cfg ''Fri'' (select ''Fri'' n)
             \<and> sat r = with_prefix cfg ''Sat'' (select ''Sat'' n)
             \<and> sun r = with_prefix cfg ''Sun'' (select ''Sun'' n))
       \<and> (build_schedule cfg = Inr rows \<longrightarrow>
            (\<forall>r\<in>set rows.
               \<exists>i<length (date_range_W_MON (season_start cfg) (season_end cfg)).
                  date_range_W_MON (season_start cfg) (season_end cfg) ! i = week_of r
                \<and> mon r = with_prefix cfg ''Mon'' (select ''Mon'' i)
                \<and> tue r = with_prefix cfg ''Tue'' (select ''Tue'' i)
                \<and> wed r = with_prefix cfg ''Wed'' (select ''Wed'' i)
                \<and> thu r = with_prefix cfg ''Thu'' (select ''Thu'' i)
                \<and> fri r = with_prefix cfg ''Fri'' (select ''Fri'' i)
                \<and> sat r = with_prefix cfg ''Sat'' (select ''Sat'' i)
                \<and> sun r = with_prefix cfg ''Sun'' (select ''Sun'' i)))"
proof (intro conjI impI ballI)
  from rotation_templates [OF assms] obtain ts where
    ts: "map_of ROTATIONS day = Some ts" "length ts = 4" "distinct ts" by blast
  then show "\<exists>ts. map_of ROTATIONS day = Some ts \<and> length ts = 4 \<and> distinct ts
           \<and> rotation_text day (n mod 4) = Inr (ts ! (n mod 4))
           \<and> rotation_text day ((n + 4) mod 4) = rotation_text day (n mod 4)
           \<and> make_row cfg (n + 4) w ph = make_row cfg n w ph
           \<and> select day n = ts ! (n mod 4)"
    by (simp add: rotation_text_def make_row_def select_def)
next
  show "select day (n + 4) = select day n" by (simp add: select_def split: option.splits)
next
  show "day_cell cfg (n mod 4) day = Inr (with_prefix cfg day (select day n))"
    by (rule day_cell_select [OF assms])
next
  obtain r where r: "make_row cfg n w ph = Inr r" using make_row_ok by blast
  with make_row_select [OF r]
  show "\<exists>r. make_row cfg n w ph = Inr r
             \<and> mon r = with_prefix cfg ''Mon'' (select ''Mon'' n)
             \<and> tue r = with_prefix cfg ''Tue'' (select ''Tue'' n)
             \<and> wed r = with_prefix cfg ''Wed'' (select ''Wed'' n)
             \<and> thu r = with_prefix cfg ''Thu'' (select ''Thu'' n)
             \<and> fri r = with_prefix cfg ''Fri'' (select ''Fri'' n)
             \<and> sat r = with_prefix cfg ''Sat'' (select ''Sat'' n)
             \<and> sun r = with_prefix cfg ''Sun'' (select ''Sun'' n)"
    by blast
next
  fix r
  assume b: "build_schedule cfg = Inr rows" and rin: "r \<in> set rows"
  from row_of_build [OF b rin] obtain ph' i w' where
    i: "i < length (date_range_W_MON (season_start cfg) (season_end cfg))"
    and w: "date_range_W_MON (season_start cfg) (season_end cfg) ! i = w'"
    and mr: "make_row cfg i w' ph' = Inr r"
    by blast
  have "w' = week_of r" using make_row_fields(1) [OF mr] by simp
  with i w make_row_select [OF mr]
  show "\<exists>i<length (date_range_W_MON (season_start cfg) (season_end cfg)).
                  date_range_W_MON (season_start cfg) (season_end cfg) ! i = week_of r
                \<and> mon r = with_prefix cfg ''Mon'' (select ''Mon'' i)
                \<and> tue r = with_prefix cfg ''Tue'' (select ''Tue'' i)
                \<and> wed r = with_prefix cfg ''Wed'' (select ''Wed'' i)
                \<and> thu r = with_prefix cfg ''Thu'' (select ''Thu'' i)
                \<and> fri r = with_prefix cfg ''Fri'' (select ''Fri'' i)
                \<and> sat r = with_prefix cfg ''Sat'' (select ''Sat'' i)
                \<and> sun r = with_prefix cfg ''Sun'' (select ''Sun'' i)"
    by blast
qed

theorem rotation_periodic_witness:
  "''Thu'' \<in> set DAYS
   \<and> select ''Thu'' 6 = ''Key session: 150'' @ ndash @ ''200m @90'' @ ndash @ ''95% + starts''
   \<and> select ''Thu'' (6 + 4) = select ''Thu'' 6
   \<and> rotation_text ''Thu'' (6 mod 4) = Inr (select ''Thu'' 6)
   \<and> day_cell taper_week_cfg (6 mod 4) ''Thu'' = Inr (select ''Thu'' 6)
   \<and> bind (make_row taper_week_cfg 6 739495 ''Phase 1 - General Prep'') (\<lambda>r. Inr (thu r))
       = Inr (''Key session: 150'' @ ndash @ ''200m @90'' @ ndash @ ''95% + starts'')
   \<and> build_schedule taper_week_cfg = Inr [taper_week_row]
   \<and> taper_week_row \<in> set [taper_week_row]
   \<and> date_range_W_MON (season_start taper_week_cfg) (season_end taper_week_cfg) = [739663]
   \<and> thu taper_week_row = select ''Thu'' 0"
  using rotation_periodic [of "''Thu''" 6 taper_week_cfg 739495 "''Phase 1 - General Prep''"
      "[taper_week_row]"]
  by (simp add: taper_week_rows)
     (simp add: DAYS_def select_def cfg_eval date_eval row_eval taper_week_row_def with_prefix_def)

text \<open>
  Claim C4. \<^verbatim>\<open>phase_for\<close> returns the name of the first range, in the order of the list,
  that holds the date, and the empty string when no range holds it. For every list of
  ranges and every list of anchors the loop of the builder returns rows, one for each anchor
  with a phase and in their order, and skips an anchor without a phase; when no anchor has a
  phase it returns no rows. \<^verbatim>\<open>build_schedule\<close> runs this loop on its nine ranges and
  its weekly anchors, and raises nothing.
\<close>

theorem phase_resolution:
  "(i < length ps \<and> in_phase (ps ! i) d \<and> (\<forall>j<i. \<not> in_phase (ps ! j) d)
      \<longrightarrow> phase_for ps d = fst (ps ! i))
   \<and> ((\<forall>p\<in>set ps. \<not> in_phase p d) \<longrightarrow> phase_for ps d = [])
   \<and> (\<exists>rows. rows_loop cfg ps iws = Inr rows
         \<and> map week_of rows = filter (\<lambda>w. phase_for ps w \<noteq> []) (map snd iws)
         \<and> ((\<forall>w\<in>set (map snd iws). phase_for ps w = []) \<longrightarrow> rows = []))
   \<and> (indoor_peak_dates (peaks cfg) = peak1 # others
        \<and> peaks_in_range peak1 (outdoor_peak_date (peaks cfg))
      \<longrightarrow> build_schedule cfg =
            rows_loop cfg
              (phase_table (season_start cfg) (season_end cfg) peak1 (outdoor_peak_date (peaks cfg)))
              (enumerate 0 (date_range_W_MON (season_start cfg) (season_end cfg)))
          \<and> (\<exists>rows. build_schedule cfg = Inr rows
             \<and> map week_of rows =
                 filter (\<lambda>w. phase_for (phase_table (season_start cfg) (season_end cfg) peak1
                                (outdoor_peak_date (peaks cfg))) w \<noteq> [])
                   (date_range_W_MON (season_start cfg) (season_end cfg))
             \<and> ((\<forall>w\<in>set (date_range_W_MON (season_start cfg) (season_end cfg)).
                    phase_for (phase_table (season_start cfg) (season_end cfg) peak1
                      (outdoor_peak_date (peaks cfg))) w = [])
                 \<longrightarrow> rows = [])))"
proof -
  have loop: "\<exists>rows. rows_loop cfg qs jws = Inr rows
         \<and> map week_of rows = filter (\<lambda>w. phase_for qs w \<noteq> []) (map snd jws)
         \<and> ((\<forall>w\<in>set (map snd jws). phase_for qs w = []) \<longrightarrow> rows = [])" for qs jws
  proof -
    obtain rows where rows: "rows_loop cfg qs jws = Inr rows" using rows_loop_total by blast
    have weeks: "map week_of rows = filter (\<lambda>w. phase_for qs w \<noteq> []) (map snd jws)"
      by (rule rows_loop_weeks [OF rows])
    have "(\<forall>w\<in>set (map snd jws). phase_for qs w = []) \<longrightarrow> rows = []"
    proof
      assume "\<forall>w\<in>set (map snd jws). phase_for qs w = []"
      then have "filter (\<lambda>w. phase_for qs w \<noteq> []) (map snd jws) = []"
        by (simp add: filter_empty_conv)
      then show "rows = []" using weeks by simp
    qed
    then show ?thesis using rows weeks by blast
  qed
  have first: "i < length ps \<and> in_phase (ps ! i) d \<and> (\<forall>j<i. \<not> in_phase (ps ! j) d)
      \<longrightarrow> phase_for ps d = fst (ps ! i)"
    using phase_for_first by blast
  have none: "(\<forall>p\<in>set ps. \<not> in_phase p d) \<longrightarrow> phase_for ps d = []"
    using phase_for_none by blast
  have build: "indoor_peak_dates (peaks cfg) = peak1 # others
        \<and> peaks_in_range peak1 (outdoor_peak_date (peaks cfg))
      \<longrightarrow> build_schedule cfg =
            rows_loop cfg
              (phase_table (season_start cfg) (season_end cfg) peak1 (outdoor_peak_date (peaks cfg)))
              (enumerate 0 (date_range_W_MON (season_start cfg) (season_end cfg)))
          \<and> (\<exists>rows. build_schedule cfg = Inr rows
             \<and> map week_of rows =
                 filter (\<lambda>w. phase_for (phase_table (season_start cfg) (season_end cfg) peak1
                                (outdoor_peak_date (peaks cfg))) w \<noteq> [])
                   (date_range_W_MON (season_start cfg) (season_end cfg))
             \<and> ((\<forall>w\<in>set (date_range_W_MON (season_start cfg) (season_end cfg)).
                    phase_for (phase_table (season_start cfg) (season_end cfg) peak1
                      (outdoor_peak_date (peaks cfg))) w = [])
                 \<longrightarrow> rows = []))"
  proof
    assume a: "indoor_peak_dates (peaks cfg) = peak1 # others
        \<and> peaks_in_range peak1 (outdoor_peak_date (peaks cfg))"
    then have eq: "build_schedule cfg =
            rows_loop cfg
              (phase_table (season_start cfg) (season_end cfg) peak1 (outdoor_peak_date (peaks cfg)))
              (enumerate 0 (date_range_W_MON (season_start cfg) (season_end cfg)))"
      by (simp add: build_schedule_cases)
    from loop [of "phase_table (season_start cfg) (season_end cfg) peak1
        (outdoor_peak_date (peaks cfg))"
        "enumerate 0 (date_range_W_MON (season_start cfg) (season_end cfg))"]
    show "build_schedule cfg =
            rows_loop cfg
              (phase_table (season_start cfg) (season_end cfg) peak1 (outdoor_peak_date (peaks cfg)))
              (enumerate 0 (date_range_W_MON (season_start cfg) (season_end cfg)))
          \<and> (\<exists>rows. build_schedule cfg = Inr rows
             \<and> map week_of rows =
                 filter (\<lambda>w. phase_for (phase_table (season_start cfg) (season_end cfg) peak1
                                (outdoor_peak_date (peaks cfg))) w \<noteq> [])
                   (date_range_W_MON (season_start cfg) (season_end cfg))
             \<and> ((\<forall>w\<in>set (date_range_W_MON (season_start cfg) (season_end cfg)).
                    phase_for (phase_table (season_start cfg) (season_end cfg) peak1
                      (outdoor_peak_date (peaks cfg))) w = [])
                 \<longrightarrow> rows = []))"
      using eq by (simp add: map_snd_enumerate)
  qed
  from first none loop [of ps iws] build show ?thesis by blast
qed

theorem phase_resolution_witness:
  "phase_for [(''a'', 1, 5), (''b'', 3, 9)] 4 = ''a''
   \<and> phase_for [(''a'', 1, 5), (''b'', 3, 9)] 7 = ''b''
   \<and> phase_for [(''a'', 1, 5), (''b'', 3, 9)] 20 = []
   \<and> (\<exists>rows. rows_loop no_monday_cfg [(''a'', 1, 5), (''b'', 3, 9)] [(0, 4), (1, 20), (2, 7)] = Inr rows
         \<and> map week_of rows = [4, 7])
   \<and> rows_loop no_monday_cfg [(''a'', 1, 5), (''b'', 3, 9)] [(0, 20), (1, 27)] = Inr []
   \<and> indoor_peak_dates (peaks no_monday_cfg) = 739668 # [739669]
   \<and> peaks_in_range 739668 (outdoor_peak_date (peaks no_monday_cfg))
   \<and> date_range_W_MON (season_start no_monday_cfg) (season_end no_monday_cfg) = []
   \<and> build_schedule no_monday_cfg = Inr []"
  using phase_resolution [of 0 "[(''a'', 1, 5), (''b'', 3, 9)]" 4 no_monday_cfg
      "[(0, 4), (1, 20), (2, 7)]" 739668 "[739669]"]
    phase_resolution [of 1 "[(''a'', 1, 5), (''b'', 3, 9)]" 7 no_monday_cfg
      "[(0, 20), (1, 27)]" 739668 "[739669]"]
    phase_resolution [of 0 "[(''a'', 1, 5), (''b'', 3, 9)]" 20 no_monday_cfg
      "[(0, 20), (1, 27)]" 739668 "[739669]"]
  by (simp add: in_phase_def no_monday_weeks no_monday_rows)
     (simp add: cfg_eval date_eval)



text \<open>
  Claim C2. For every configuration and every emitted row, the volume modifier is 0.4 when
  the phase name contains "Transition" or "Post-season", else 0.5 when it contains "Taper",
  else \<^verbatim>\<open>round(commute_factor * age_factor, 2)\<close> with commute factor 0.9 for at least
  30 km per day and 1.0 otherwise, and age factor 1.0 from age 16 and 0.95 below. A row whose
  phase name contains "Taper" has modifier 0.5 whatever the age and the distance are.
\<close>

theorem volume_modifier_rule:
  assumes "build_schedule cfg = Inr rows" "r \<in> set rows"
  shows "volume_modifier r =
           (if contains ''Transition'' (phase r) \<or> contains ''Post-season'' (phase r)
            then nearest_float 4 10
            else if contains ''Taper'' (phase r) then nearest_float 5 10
            else round2 (float_mul
                   (if 30 \<le> get (bike_km_per_day cfg) 0 then nearest_float 9 10 else nearest_float 1 1)
                   (if 16 \<le> get (age cfg) 15 then nearest_float 1 1 else nearest_float 95 100)))
         \<and> (contains ''Taper'' (phase r) \<longrightarrow> volume_modifier r = nearest_float 5 10)"
proof -
  from row_of_build [OF assms] obtain peak1 i w where
    ph: "phase_for (phase_table (season_start cfg) (season_end cfg) peak1
            (outdoor_peak_date (peaks cfg))) w \<noteq> []"
    and mr: "make_row cfg i w (phase_for (phase_table (season_start cfg) (season_end cfg) peak1
            (outdoor_peak_date (peaks cfg))) w) = Inr r"
    by blast
  have p: "phase r = phase_for (phase_table (season_start cfg) (season_end cfg) peak1
            (outdoor_peak_date (peaks cfg))) w"
    using make_row_fields(2) [OF mr] .
  have v: "volume_modifier r = vol_mod cfg (phase r)"
    using make_row_fields(3) [OF mr] p by simp
  have n: "phase r \<in> fst ` set (phase_table (season_start cfg) (season_end cfg) peak1
            (outdoor_peak_date (peaks cfg)))"
    using phase_for_names [OF ph] p by simp
  have first: "volume_modifier r =
           (if contains ''Transition'' (phase r) \<or> contains ''Post-season'' (phase r)
            then nearest_float 4 10
            else if contains ''Taper'' (phase r) then nearest_float 5 10
            else round2 (float_mul
                   (if 30 \<le> get (bike_km_per_day cfg) 0 then nearest_float 9 10 else nearest_float 1 1)
                   (if 16 \<le> get (age cfg) 15 then nearest_float 1 1 else nearest_float 95 100)))"
    unfolding v by (simp add: vol_mod_def Let_def commute_factor_def age_factor_def)
  moreover have "contains ''Taper'' (phase r) \<longrightarrow> volume_modifier r = nearest_float 5 10"
    using first taper_names [OF n] by simp
  ultimately show ?thesis by blast
qed

theorem volume_modifier_rule_witness:
  "build_schedule taper_week_cfg = Inr [taper_week_row]
   \<and> taper_week_row \<in> set [taper_week_row]
   \<and> contains ''Taper'' (phase taper_week_row)
   \<and> volume_modifier taper_week_row = nearest_float 5 10"
  using volume_modifier_rule [OF taper_week_rows, of taper_week_row]
  by (simp add: taper_week_rows) (simp add: taper_week_row_def starts_with_def)

subsection \<open>The scenario of the specification\<close>

lemma filter_key_unique:
  assumes "distinct (map f xs)" "y \<in> f ` set xs"
  shows "\<exists>r. filter (\<lambda>x. f x = y) xs = [r]"
  using assms
proof (induction xs)
  case Nil
  then show ?case by simp
next
  case (Cons x xs)
  show ?case
  proof (cases "f x = y")
    case True
    then have "y \<notin> f ` set xs" using Cons.prems(1) by simp
    then have "filter (\<lambda>x. f x = y) xs = []" by (auto simp: filter_empty_conv)
    then show ?thesis using True by simp
  next
    case False
    then have "y \<in> f ` set xs" using Cons.prems(2) by auto
    moreover have "distinct (map f xs)" using Cons.prems(1) by simp
    ultimately show ?thesis using Cons.IH False by simp
  qed
qed

lemma scenario_weeks:
  "date_range_W_MON (ymd2ord 2025 9 1) (ymd2ord 2026 7 1) = 739495 # weekly 739502 739798"
  by (simp add: ymd2ord_def days_before_year_def days_before_month_def DAYS_BEFORE_MONTH_def
      is_leap_def date_range_W_MON_def rollforward_monday_def weekday_def weekly_step [of 739495])

lemma scenario_loop:
  assumes "season_start cfg = ymd2ord 2025 9 1" "season_end cfg = ymd2ord 2026 7 1"
    "indoor_peak_dates (peaks cfg) = ymd2ord 2026 2 21 # others"
    "outdoor_peak_date (peaks cfg) = ymd2ord 2026 6 28"
  shows "build_schedule cfg =
           rows_loop cfg (phase_table 739495 739798 739668 739795)
             (enumerate 0 (date_range_W_MON (ymd2ord 2025 9 1) (ymd2ord 2026 7 1)))"
  using assms
  by (simp add: build_schedule_cases ords peaks_in_range_def MINORD_def MAXORD_def)

lemma scenario_first_row:
  assumes "season_start cfg = ymd2ord 2025 9 1" "season_end cfg = ymd2ord 2026 7 1"
    "indoor_peak_dates (peaks cfg) = ymd2ord 2026 2 21 # others"
    "outdoor_peak_date (peaks cfg) = ymd2ord 2026 6 28"
    "age cfg = Some 15" "bike_km_per_day cfg = Some 32"
  shows "\<exists>rows. build_schedule cfg = Inr rows \<and> rows \<noteq> []
           \<and> week_of (hd rows) = ymd2ord 2025 9 1
           \<and> phase (hd rows) = ''Phase 1 - General Prep''
           \<and> volume_modifier (hd rows) = round2 (float_mul (nearest_float 9 10) (nearest_float 95 100))"
proof -
  let ?ps = "phase_table 739495 739798 739668 739795"
  obtain rows where loop0:
    "rows_loop cfg ?ps (enumerate 0 (date_range_W_MON (ymd2ord 2025 9 1) (ymd2ord 2026 7 1))) = Inr rows"
    using rows_loop_total by blast
  then have rows: "build_schedule cfg = Inr rows"
    by (simp only: scenario_loop [OF assms(1-4)])
  have loop: "rows_loop cfg ?ps ((0, 739495) # enumerate (Suc 0) (weekly 739502 739798)) = Inr rows"
    using loop0 by (simp only: scenario_weeks enumerate_simps)
  have ph: "phase_for ?ps 739495 = ''Phase 1 - General Prep''"
    by (simp add: phase_table_def)
  then have ne: "phase_for ?ps 739495 \<noteq> []" by simp
  from rows_loop_hd [OF loop ne] ph
  have rne: "rows \<noteq> []" and mr: "make_row cfg 0 739495 ''Phase 1 - General Prep'' = Inr (hd rows)"
    by simp_all
  have "vol_mod cfg ''Phase 1 - General Prep''
          = round2 (float_mul (nearest_float 9 10) (nearest_float 95 100))"
    using assms(5,6)
    by (simp add: vol_mod_def Let_def starts_with_def commute_factor_def age_factor_def get_def)
  then show ?thesis
    using rows rne make_row_fields(1-3) [OF mr] by (simp add: ords)
qed

lemma scenario_taper_row:
  assumes "season_start cfg = ymd2ord 2025 9 1" "season_end cfg = ymd2ord 2026 7 1"
    "indoor_peak_dates (peaks cfg) = ymd2ord 2026 2 21 # others"
    "outdoor_peak_date (peaks cfg) = ymd2ord 2026 6 28"
    "build_schedule cfg = Inr rows"
  shows "\<exists>r. filter (\<lambda>r. week_of r = ymd2ord 2026 2 16) rows = [r]
           \<and> phase r = ''Phase 4 - Taper & Peak 1''
           \<and> volume_modifier r = nearest_float 5 10"
proof -
  let ?ps = "phase_table 739495 739798 739668 739795"
  let ?weeks = "date_range_W_MON (ymd2ord 2025 9 1) (ymd2ord 2026 7 1)"
  have loop: "rows_loop cfg ?ps (enumerate 0 ?weeks) = Inr rows"
    using scenario_loop [OF assms(1-4)] assms(5) by simp
  have ph: "phase_for ?ps 739663 = ''Phase 4 - Taper & Peak 1''"
    by (simp add: phase_table_def)
  have weeks: "map week_of rows = filter (\<lambda>w. phase_for ?ps w \<noteq> []) ?weeks"
    using rows_loop_weeks [OF loop] by (simp add: map_snd_enumerate)
  have "739663 \<in> set ?weeks"
    by (simp add: set_date_range ords weekday_def)
  then have "739663 \<in> set (filter (\<lambda>w. phase_for ?ps w \<noteq> []) ?weeks)"
    using ph by simp
  then have "739663 \<in> set (map week_of rows)" by (simp only: weeks)
  then have mem: "739663 \<in> week_of ` set rows" by simp
  have "distinct ?weeks" by (simp add: date_range_W_MON_def distinct_weekly)
  then have "distinct (map week_of rows)" by (simp add: weeks)
  from filter_key_unique [OF this mem] obtain r
    where r: "filter (\<lambda>r. week_of r = 739663) rows = [r]" by blast
  then have "r \<in> set (filter (\<lambda>r. week_of r = 739663) rows)" by simp
  then have rin: "r \<in> set rows" and wr: "week_of r = 739663" by simp_all
  from rows_loop_member [OF loop rin] obtain i w where
    mr: "make_row cfg i w (phase_for ?ps w) = Inr r" by blast
  have "w = 739663" using make_row_fields(1) [OF mr] wr by simp
  then have p: "phase r = ''Phase 4 - Taper & Peak 1''"
    using make_row_fields(2) [OF mr] ph by simp
  have "vol_mod cfg ''Phase 4 - Taper & Peak 1'' = nearest_float 5 10"
    by (simp add: vol_mod_def Let_def starts_with_def)
  then have "volume_modifier r = nearest_float 5 10"
    using make_row_fields(3) [OF mr] p make_row_fields(2) [OF mr] by simp
  then show ?thesis using r p by (simp add: ords)
qed

lemma scenario_cfg_fields:
  "season_start scenario_cfg = ymd2ord 2025 9 1" "season_end scenario_cfg = ymd2ord 2026 7 1"
  "indoor_peak_dates (peaks scenario_cfg) = ymd2ord 2026 2 21 # [ymd2ord 2026 2 22]"
  "outdoor_peak_date (peaks scenario_cfg) = ymd2ord 2026 6 28"
  "age scenario_cfg = Some 15" "bike_km_per_day scenario_cfg = Some 32"
  by (simp_all add: scenario_cfg_def)

text \<open>
  Claim C3, amended. For the season 2025-09-01 to 2026-07-01 with indoor peak 2026-02-21,
  outdoor peak 2026-06-28, age 15 and 32 km per day, the first row has phase
  "Phase 1 - General Prep" and volume modifier \<^verbatim>\<open>round(0.9 * 0.95, 2)\<close>, which is
  0.85 in binary floating point; exactly one row has the week 2026-02-16, its phase is
  "Phase 4 - Taper & Peak 1" and its volume modifier is 0.5.
\<close>

theorem scenario_rows:
  assumes "season_start cfg = ymd2ord 2025 9 1" "season_end cfg = ymd2ord 2026 7 1"
    "indoor_peak_dates (peaks cfg) = ymd2ord 2026 2 21 # others"
    "outdoor_peak_date (peaks cfg) = ymd2ord 2026 6 28"
    "age cfg = Some 15" "bike_km_per_day cfg = Some 32"
  shows "\<exists>rows. build_schedule cfg = Inr rows \<and> rows \<noteq> []
           \<and> phase (hd rows) = ''Phase 1 - General Prep''
           \<and> volume_modifier (hd rows) = round2 (float_mul (nearest_float 9 10) (nearest_float 95 100))
           \<and> volume_modifier (hd rows) = nearest_float 85 100
           \<and> (\<exists>r. filter (\<lambda>r. week_of r = ymd2ord 2026 2 16) rows = [r]
                  \<and> phase r = ''Phase 4 - Taper & Peak 1''
                  \<and> volume_modifier r = nearest_float 5 10)"
proof -
  from scenario_first_row [OF assms] obtain rows where
    rows: "build_schedule cfg = Inr rows" "rows \<noteq> []"
    "phase (hd rows) = ''Phase 1 - General Prep''"
    "volume_modifier (hd rows) = round2 (float_mul (nearest_float 9 10) (nearest_float 95 100))"
    by blast
  from scenario_taper_row [OF assms(1-4) rows(1)] rows show ?thesis
    by (simp add: round2_products)
qed

theorem scenario_rows_witness:
  "season_start scenario_cfg = ymd2ord 2025 9 1 \<and> season_end scenario_cfg = ymd2ord 2026 7 1
   \<and> indoor_peak_dates (peaks scenario_cfg) = ymd2ord 2026 2 21 # [ymd2ord 2026 2 22]
   \<and> outdoor_peak_date (peaks scenario_cfg) = ymd2ord 2026 6 28
   \<and> age scenario_cfg = Some 15 \<and> bike_km_per_day scenario_cfg = Some 32
   \<and> (\<exists>rows. build_schedule scenario_cfg = Inr rows \<and> rows \<noteq> []
           \<and> phase (hd rows) = ''Phase 1 - General Prep''
           \<and> volume_modifier (hd rows) = nearest_float 85 100)"
  using scenario_rows [OF scenario_cfg_fields] scenario_cfg_fields by blast

text \<open>
  Claim C3 as stated gives 0.86 for the first row. The product \<^verbatim>\<open>0.9 * 0.95\<close> is the
  float just below 0.855, so the first row holds 0.85, which is not the float 0.86.
\<close>

theorem scenario_first_row_not_086:
  "map volume_modifier (take 1 (rows_of (build_schedule scenario_cfg))) = [nearest_float 85 100]
   \<and> nearest_float 85 100 \<noteq> nearest_float 86 100"
proof -
  from scenario_first_row [OF scenario_cfg_fields] obtain rows where
    "build_schedule scenario_cfg = Inr rows" "rows \<noteq> []"
    "volume_modifier (hd rows) = round2 (float_mul (nearest_float 9 10) (nearest_float 95 100))"
    by blast
  then have "map volume_modifier (take 1 (rows_of (build_schedule scenario_cfg)))
               = [nearest_float 85 100]"
    by (cases rows) (simp_all add: round2_products)
  then show ?thesis by (simp add: float_literals)
qed

subsection \<open>Fields that the builder does not read\<close>

text \<open>
  Claim C9. Two configurations with the same season start, season end, first indoor peak
  date, outdoor peak date, distance per day, age and schedule settings give the same result,
  whatever the athlete name, the sex, the personal bests, the events and the further indoor
  peak dates are.
\<close>

theorem build_schedule_noninterference:
  assumes "season_start cfg = season_start cfg'" "season_end cfg = season_end cfg'"
    "take 1 (indoor_peak_dates (peaks cfg)) = take 1 (indoor_peak_dates (peaks cfg'))"
    "outdoor_peak_date (peaks cfg) = outdoor_peak_date (peaks cfg')"
    "bike_km_per_day cfg = bike_km_per_day cfg'" "age cfg = age cfg'"
    "schedule cfg = schedule cfg'"
  shows "build_schedule cfg = build_schedule cfg'"
proof -
  have tp: "time_prefix cfg day = time_prefix cfg' day" for day
    using assms(7)
    by (simp add: time_prefix_def the_include_time_prefix_def the_schedule_mode_def
        the_sessions_per_week_def manual_slots_def the_schedule_cfg_def)
  have dc: "day_cell cfg idx day = day_cell cfg' idx day" for idx day
    by (simp add: day_cell_def tp)
  have vm: "vol_mod cfg ph = vol_mod cfg' ph" for ph
    using assms(5,6) by (simp add: vol_mod_def commute_factor_def age_factor_def)
  have mr: "make_row cfg i w ph = make_row cfg' i w ph" for i w ph
    by (simp add: make_row_def dc vm)
  have rl: "rows_loop cfg ps iws = rows_loop cfg' ps iws" for ps iws
    using mr by (rule rows_loop_cong)
  show ?thesis
  proof (cases "indoor_peak_dates (peaks cfg)")
    case Nil
    then have "indoor_peak_dates (peaks cfg') = []" using assms(3) by simp
    then show ?thesis using Nil by (simp add: build_schedule_def)
  next
    case (Cons p ps)
    then obtain qs where "indoor_peak_dates (peaks cfg') = p # qs"
      using assms(3) by (cases "indoor_peak_dates (peaks cfg')") simp_all
    then show ?thesis using Cons assms(1,2,4) by (simp add: build_schedule_def rl)
  qed
qed

theorem build_schedule_noninterference_witness:
  "athlete_name scenario_cfg \<noteq> athlete_name other_athlete_cfg
   \<and> sex scenario_cfg \<noteq> sex other_athlete_cfg
   \<and> pbs scenario_cfg \<noteq> pbs other_athlete_cfg
   \<and> events scenario_cfg \<noteq> events other_athlete_cfg
   \<and> indoor_peak_dates (peaks scenario_cfg) \<noteq> indoor_peak_dates (peaks other_athlete_cfg)
   \<and> take 1 (indoor_peak_dates (peaks scenario_cfg))
       = take 1 (indoor_peak_dates (peaks other_athlete_cfg))
   \<and> build_schedule scenario_cfg = build_schedule other_athlete_cfg"
  using build_schedule_noninterference [of scenario_cfg other_athlete_cfg]
  by (simp add: scenario_cfg_def other_athlete_cfg_def)
     (simp add: ymd2ord_def days_before_year_def days_before_month_def DAYS_BEFORE_MONTH_def
        is_leap_def)

subsection \<open>Cells without a prefix\<close>

text \<open>
  Claim C10. When \<^verbatim>\<open>include_time_prefix\<close> is false, every day cell of every emitted row
  is the bare rotation template of its weekday and rotation index, for every mode, every
  slot table and every number of sessions.
\<close>

theorem no_time_prefix:
  assumes "schedule cfg = Some sc" "include_time_prefix sc = Some False"
    "build_schedule cfg = Inr rows" "r \<in> set rows"
  shows "\<exists>i<length (date_range_W_MON (season_start cfg) (season_end cfg)).
           date_range_W_MON (season_start cfg) (season_end cfg) ! i = week_of r
         \<and> rotation_text ''Mon'' (i mod 4) = Inr (mon r)
         \<and> rotation_text ''Tue'' (i mod 4) = Inr (tue r)
         \<and> rotation_text ''Wed'' (i mod 4) = Inr (wed r)
         \<and> rotation_text ''Thu'' (i mod 4) = Inr (thu r)
         \<and> rotation_text ''Fri'' (i mod 4) = Inr (fri r)
         \<and> rotation_text ''Sat'' (i mod 4) = Inr (sat r)
         \<and> rotation_text ''Sun'' (i mod 4) = Inr (sun r)"
proof -
  have tp: "time_prefix cfg day = []" for day
    using assms(1,2)
    by (simp add: time_prefix_def the_include_time_prefix_def the_schedule_cfg_def get_def)
  from row_of_build [OF assms(3,4)] obtain ph i w where
    i: "i < length (date_range_W_MON (season_start cfg) (season_end cfg))"
    and w: "date_range_W_MON (season_start cfg) (season_end cfg) ! i = w"
    and mr: "make_row cfg i w ph = Inr r"
    by blast
  have "w = week_of r" using make_row_fields(1) [OF mr] by simp
  then show ?thesis
    using i w make_row_fields(5-11) [OF mr] by (auto simp: day_cell_no_prefix [OF tp])
qed

theorem no_time_prefix_witness:
  "schedule taper_week_cfg = Some auto_schedule
   \<and> mode auto_schedule = Some ''auto''
   \<and> include_time_prefix auto_schedule = Some False
   \<and> build_schedule taper_week_cfg = Inr [taper_week_row]
   \<and> taper_week_row \<in> set [taper_week_row]
   \<and> date_range_W_MON (season_start taper_week_cfg) (season_end taper_week_cfg) = [739663]
   \<and> rotation_text ''Thu'' (0 mod 4) = Inr (thu taper_week_row)"
  using no_time_prefix [of taper_week_cfg auto_schedule "[taper_week_row]" taper_week_row]
  by (simp add: taper_week_rows)
     (simp add: cfg_eval date_eval taper_week_row_def rotation_text_def ROTATIONS_def)

subsection \<open>The taper advisor\<close>

text \<open>
  Claim C8. \<^verbatim>\<open>taper_protocol\<close> has three branches, with three different protocols:
  the one of "A", the one of "B", and the one of "C", which every other priority gets too.
  The peak type only enters the notes of the "A" branch. For priority "A" and peak type
  "Indoor 60/200" the volume change is "-40% to -60%" and the notes contain "Indoor 60/200".
\<close>

theorem taper_advisor:
  "taper_protocol ''A'' peak_type =
     \<lparr>volume_change = ''-40% to -60%'',
     intensity = ''High (short & sharp)'',
     key_sessions = ''Mon: starts/accel; Tue: flying 20'' @ ndash @ ''30m; Thu: race-pace touches; Fri: micro-priming'',
     strength = ''Explosive only (bodyweight/bands)'',
     rest_days = ge_sign @ ''1 full rest day before race'',
     taper_notes = ''A-peak ('' @ peak_type @ ''): keep CNS fresh; no fatigue-dense work last 72h''\<rparr>
   \<and> taper_protocol ''B'' peak_type =
     \<lparr>volume_change = ''-20% to -30%'',
     intensity = ''Moderate-high'',
     key_sessions = ''Short starts + 1 race-pace rep'',
     strength = ''Light explosive set'',
     rest_days = ''Optional rest day before race'',
     taper_notes = ''Rehearsal race; do not over-taper''\<rparr>
   \<and> taper_protocol ''C'' peak_type =
     \<lparr>volume_change = ''No change or -10%'',
     intensity = ''Normal training'',
     key_sessions = ''Keep routine; short starts'',
     strength = ''Normal'',
     rest_days = ''None required'',
     taper_notes = ''Training race; prioritize learning''\<rparr>
   \<and> (priority \<noteq> ''A'' \<and> priority \<noteq> ''B'' \<longrightarrow>
        taper_protocol priority peak_type =
          \<lparr>volume_change = ''No change or -10%'',
          intensity = ''Normal training'',
          key_sessions = ''Keep routine; short starts'',
          strength = ''Normal'',
          rest_days = ''None required'',
          taper_notes = ''Training race; prioritize learning''\<rparr>)
   \<and> taper_protocol ''A'' peak_type \<noteq> taper_protocol ''B'' peak_type'
   \<and> taper_protocol ''A'' peak_type \<noteq> taper_protocol ''C'' peak_type'
   \<and> taper_protocol ''B'' peak_type \<noteq> taper_protocol ''C'' peak_type'
   \<and> (priority \<noteq> ''A'' \<and> priority \<noteq> ''B'' \<longrightarrow> taper_protocol priority peak_type = taper_protocol ''C'' peak_type)
   \<and> (priority \<noteq> ''A'' \<longrightarrow> taper_protocol priority peak_type = taper_protocol priority peak_type')
   \<and> (taper_protocol ''A'' peak_type)\<lparr>taper_notes := x\<rparr> = (taper_protocol ''A'' peak_type')\<lparr>taper_notes := x\<rparr>
   \<and> taper_notes (taper_protocol ''A'' peak_type) =
        ''A-peak ('' @ peak_type @ ''): keep CNS fresh; no fatigue-dense work last 72h''
   \<and> volume_change (taper_protocol ''A'' ''Indoor 60/200'') = ''-40% to -60%''
   \<and> contains ''Indoor 60/200'' (taper_notes (taper_protocol ''A'' ''Indoor 60/200''))"
  by (simp add: taper_protocol_def starts_with_def)

theorem taper_advisor_witness:
  "''D'' \<noteq> ''A'' \<and> ''D'' \<noteq> ''B''
   \<and> taper_protocol ''D'' ''Indoor 60/200'' =
       \<lparr>volume_change = ''No change or -10%'',
       intensity = ''Normal training'',
       key_sessions = ''Keep routine; short starts'',
       strength = ''Normal'',
       rest_days = ''None required'',
       taper_notes = ''Training race; prioritize learning''\<rparr>
   \<and> taper_protocol ''D'' ''Indoor 60/200'' = taper_protocol ''C'' ''Indoor 60/200''
   \<and> taper_protocol ''D'' ''Indoor 60/200'' = taper_protocol ''D'' ''Outdoor 100/200''
   \<and> taper_protocol ''D'' ''Indoor 60/200'' \<noteq> taper_protocol ''B'' ''Indoor 60/200''"
  using taper_advisor [of "''Indoor 60/200''" "''D''" "''Outdoor 100/200''" "[]"]
  by (simp add: taper_protocol_def)

end
